theory Spec2Isabelle
  imports Main "HOL-Library.AList"
begin

section \<open>Values, errors and calendar dates\<close>

text \<open>
  The program is a Python address book (\<^verbatim>\<open>project.py\<close>). Exceptions are values of
  type \<open>error\<close>; an operation that can raise returns \<open>error + 'a\<close>, and an operation
  that mutates the address book before it raises returns the mutated state next to the
  error, as the Python object keeps its mutation when the exception propagates.
  Strings are \<open>string\<close>; in this character range the only characters matched by
  \<^verbatim>\<open>\d\<close> are \<^verbatim>\<open>0\<close> to \<^verbatim>\<open>9\<close>.
\<close>

datatype error =
    ValueError string
  | KeyError string
  | AttributeError string
  | EOFError

text \<open>
  \<^verbatim>\<open>datetime.date\<close>: a proleptic Gregorian date with \<^verbatim>\<open>MINYEAR = 1\<close> and
  \<^verbatim>\<open>MAXYEAR = 9999\<close>. The constructor \<open>date_new\<close> raises \<^verbatim>\<open>ValueError\<close>
  on a day that the month does not have; \<open>toordinal\<close> is the day number that the
  subtraction of two dates is computed from.
\<close>

record date =
  year :: int
  month :: int
  day :: int

definition is_leap :: "int \<Rightarrow> bool" where
  "is_leap y = (if y mod 400 = 0 then True else if y mod 100 = 0 then False else y mod 4 = 0)"

definition days_in_month :: "int \<Rightarrow> int \<Rightarrow> int" where
  "days_in_month y m =
     (if m = 2 then (if is_leap y then 29 else 28)
      else if m = 4 \<or> m = 6 \<or> m = 9 \<or> m = 11 then 30 else 31)"

definition valid_date :: "date \<Rightarrow> bool" where
  "valid_date d =
     (1 \<le> year d \<and> year d \<le> 9999 \<and> 1 \<le> month d \<and> month d \<le> 12 \<and>
      1 \<le> day d \<and> day d \<le> days_in_month (year d) (month d))"

definition date_new :: "int \<Rightarrow> int \<Rightarrow> int \<Rightarrow> error + date" where
  "date_new y m d =
     (if y < 1 \<or> 9999 < y then Inl (ValueError ''year is out of range'')
      else if m < 1 \<or> 12 < m then Inl (ValueError ''month must be in 1..12'')
      else if d < 1 \<or> days_in_month y m < d then Inl (ValueError ''day is out of range for month'')
      else Inr \<lparr>year = y, month = m, day = d\<rparr>)"

definition date_less :: "date \<Rightarrow> date \<Rightarrow> bool" where
  "date_less a b =
     (year a < year b \<or>
      (year a = year b \<and> (month a < month b \<or> (month a = month b \<and> day a < day b))))"

definition days_before_year :: "int \<Rightarrow> int" where
  "days_before_year y = (y - 1) * 365 + (y - 1) div 4 - (y - 1) div 100 + (y - 1) div 400"

definition days_before_month :: "int \<Rightarrow> int \<Rightarrow> int" where
  "days_before_month y m =
     [0, 31, 59, 90, 120, 151, 181, 212, 243, 273, 304, 334] ! nat (m - 1)
       + (if 2 < m \<and> is_leap y then 1 else 0)"

definition toordinal :: "date \<Rightarrow> int" where
  "toordinal d = days_before_year (year d) + days_before_month (year d) (month d) + day d"

text \<open>
  The values a \<^verbatim>\<open>Birthday\<close> or \<^verbatim>\<open>Phone\<close> field is given: \<^verbatim>\<open>None\<close>, a string or a
  date. \<open>truthy\<close> is Python's truth value of such an object.
\<close>

datatype pyvalue = PyNone | PyStr string | PyDate date

fun truthy :: "pyvalue \<Rightarrow> bool" where
  "truthy PyNone = False"
| "truthy (PyStr s) = (s \<noteq> [])"
| "truthy (PyDate d) = True"

fun isinstance_date :: "pyvalue \<Rightarrow> bool" where
  "isinstance_date (PyDate d) = True"
| "isinstance_date v = False"

fun isinstance_str :: "pyvalue \<Rightarrow> bool" where
  "isinstance_str (PyStr s) = True"
| "isinstance_str v = False"

section \<open>The input validation wrapper\<close>

text \<open>
  \<^verbatim>\<open>re.match("^[A-Za-z ]+$", name)\<close> and \<^verbatim>\<open>re.match("^\d+$", phone)\<close>. In Python
  \<^verbatim>\<open>$\<close> matches at the end of the string and also just before a newline that ends the
  string, so one trailing newline is dropped before the characters are tested.
\<close>

definition ord :: "char \<Rightarrow> nat" where
  "ord c = of_char c"

definition is_letter_or_space :: "char \<Rightarrow> bool" where
  "is_letter_or_space c =
     ((ord CHR ''A'' \<le> ord c \<and> ord c \<le> ord CHR ''Z'') \<or>
      (ord CHR ''a'' \<le> ord c \<and> ord c \<le> ord CHR ''z'') \<or> c = CHR '' '')"

definition is_digit :: "char \<Rightarrow> bool" where
  "is_digit c = (ord CHR ''0'' \<le> ord c \<and> ord c \<le> ord CHR ''9'')"

definition strip_final_newline :: "string \<Rightarrow> string" where
  "strip_final_newline s = (if s \<noteq> [] \<and> last s = CHR 0x0A then butlast s else s)"

definition re_match_name :: "string \<Rightarrow> bool" where
  "re_match_name s =
     (strip_final_newline s \<noteq> [] \<and> list_all is_letter_or_space (strip_final_newline s))"

definition re_match_phone :: "string \<Rightarrow> bool" where
  "re_match_phone s =
     (strip_final_newline s \<noteq> [] \<and> list_all is_digit (strip_final_newline s))"

text \<open>
  \<^verbatim>\<open>validation_contact(func)\<close> returns a wrapper that reads \<^verbatim>\<open>args[0]\<close> as the name
  and \<^verbatim>\<open>args[1]\<close> as the phone, answers with a message when one of them does not
  match, and calls \<^verbatim>\<open>func\<close> otherwise. The state \<open>w\<close> stands for what \<^verbatim>\<open>func\<close>
  may mutate. No function of \<^verbatim>\<open>project.py\<close> is decorated with it.
\<close>

definition validation_contact ::
  "(string \<Rightarrow> string \<Rightarrow> 'w \<Rightarrow> (error + string) \<times> 'w) \<Rightarrow>
   string \<Rightarrow> string \<Rightarrow> 'w \<Rightarrow> (error + string) \<times> 'w" where
  "validation_contact func name phone w =
     (if \<not> re_match_name name
      then (Inr ''Invalid input. Name can only contain English letters and spaces.'', w)
      else if \<not> re_match_phone phone
      then (Inr ''Invalid input. Phone number can only contain digits.'', w)
      else func name phone w)"

section \<open>Fields and records\<close>

text \<open>
  A \<^verbatim>\<open>Field\<close> stores the value and then validates it, in the constructor and in the
  setter alike. The three \<^verbatim>\<open>validate\<close> methods:
\<close>

definition Birthday_validate :: "pyvalue \<Rightarrow> error + unit" where
  "Birthday_validate v =
     (if truthy v \<and> \<not> isinstance_date v
      then Inl (ValueError ''Birthday field must be a date object.'') else Inr ())"

definition Name_validate :: "string \<Rightarrow> error + unit" where
  "Name_validate v = (if v = [] then Inl (ValueError ''Name field is required.'') else Inr ())"

definition Phone_validate :: "pyvalue \<Rightarrow> error + unit" where
  "Phone_validate v =
     (if truthy v \<and> \<not> isinstance_str v
      then Inl (ValueError ''Phone field must be a string.'') else Inr ())"

text \<open>
  A \<^verbatim>\<open>Record\<close> holds the value of its \<^verbatim>\<open>Name\<close> field, the list of phones (raw
  strings) and the value of its \<^verbatim>\<open>Birthday\<close> field. Records are held by value: the
  model is of address books in which no \<^verbatim>\<open>Record\<close> object is stored under two keys,
  as in every book that the command handlers build.
\<close>

record Record =
  name :: string
  phones :: "string list"
  birthday :: pyvalue

definition Record_init :: "string \<Rightarrow> pyvalue \<Rightarrow> error + Record" where
  "Record_init n b =
     (case Name_validate n of
        Inl e \<Rightarrow> Inl e
      | Inr u \<Rightarrow>
          (case Birthday_validate b of
             Inl e \<Rightarrow> Inl e
           | Inr u' \<Rightarrow> Inr \<lparr>name = n, phones = [], birthday = b\<rparr>))"

definition add_phone :: "string \<Rightarrow> Record \<Rightarrow> Record" where
  "add_phone p r = r\<lparr>phones := phones r @ [p]\<rparr>"

definition remove_phone :: "string \<Rightarrow> Record \<Rightarrow> Record" where
  "remove_phone p r = (if p \<in> set (phones r) then r\<lparr>phones := remove1 p (phones r)\<rparr> else r)"

fun index_of :: "'a list \<Rightarrow> 'a \<Rightarrow> nat" where
  "index_of [] x = 0"
| "index_of (y # ys) x = (if y = x then 0 else Suc (index_of ys x))"

definition edit_phone :: "string \<Rightarrow> string \<Rightarrow> Record \<Rightarrow> Record" where
  "edit_phone old_phone new_phone r =
     (if old_phone \<in> set (phones r)
      then r\<lparr>phones := (phones r)[index_of (phones r) old_phone := new_phone]\<rparr> else r)"

text \<open>
  \<^verbatim>\<open>days_to_birthday\<close>, with \<^verbatim>\<open>date.today()\<close> as the parameter \<open>today\<close>. The result
  \<open>Inr None\<close> is Python's \<^verbatim>\<open>None\<close>; a stored truthy value that is not a date has no
  attribute \<^verbatim>\<open>month\<close>.
\<close>

definition days_to_birthday :: "Record \<Rightarrow> date \<Rightarrow> error + int option" where
  "days_to_birthday r today =
     (if \<not> truthy (birthday r) then Inr None
      else
        (case birthday r of
           PyDate b \<Rightarrow>
             (case date_new (year today) (month b) (day b) of
                Inl e \<Rightarrow> Inl e
              | Inr next_birthday \<Rightarrow>
                  if date_less next_birthday today
                  then
                    (case date_new (year today + 1) (month b) (day b) of
                       Inl e \<Rightarrow> Inl e
                     | Inr next_birthday' \<Rightarrow> Inr (Some (toordinal next_birthday' - toordinal today)))
                  else Inr (Some (toordinal next_birthday - toordinal today)))
         | PyStr s \<Rightarrow> Inl (AttributeError ''month'')
         | PyNone \<Rightarrow> Inl (AttributeError ''month'')))"

section \<open>The address book and its file\<close>

text \<open>
  The \<^verbatim>\<open>data\<close> dictionary is an association list in insertion order:
  \<open>AList.update\<close> keeps the place of a key that is present and appends a new key,
  as a Python \<^verbatim>\<open>dict\<close> does, and \<open>AList.delete\<close> is \<^verbatim>\<open>del\<close>.

  The world around the address book is everything \<^verbatim>\<open>project.py\<close> calls but does not
  define. The content of a file is of an arbitrary type \<open>'b\<close>: the program never looks
  into it, only \<^verbatim>\<open>pickle\<close> does. The two functions of \<^verbatim>\<open>pickle\<close> are components of the
  world, \<open>pickle_dump\<close> from a dictionary to a content and \<open>pickle_load\<close> from a content
  to a dictionary or to the text of the exception it raises; nothing is assumed about
  them, and a theorem that needs \<^verbatim>\<open>pickle.load\<close> to give back what \<^verbatim>\<open>pickle.dump\<close>
  was given says so as a hypothesis. A content that unpickles to something other than
  a dictionary of records is outside the model. The file system is the content by path (\<open>None\<close>
  where no file exists) and what opening a path does:
  \<^item> for writing: the content is stored (\<open>Written\<close>); the write is accepted and nothing
    is kept, as on \<^verbatim>\<open>/dev/null\<close> (\<open>Discarded\<close>); \<^verbatim>\<open>open\<close> raises and the file is
    untouched (\<open>OpenFails\<close>); or \<^verbatim>\<open>open\<close> succeeds and \<^verbatim>\<open>pickle.dump\<close> raises,
    which leaves a partial content (\<open>DumpFails\<close>);
  \<^item> for reading: the file is read (\<open>Readable\<close>), or \<^verbatim>\<open>open\<close> raises an exception
    other than \<^verbatim>\<open>FileNotFoundError\<close>, as on a file without read permission
    (\<open>ReadFails\<close>).
  The last component is the list of the lines printed.
\<close>

record AddressBook =
  data :: "(string \<times> Record) list"
  file_path :: string

datatype 'b write_outcome = Written | Discarded | OpenFails string | DumpFails string 'b

datatype read_outcome = Readable | ReadFails string

record 'b world =
  book :: AddressBook
  files :: "string \<Rightarrow> 'b option"
  on_write :: "string \<Rightarrow> 'b write_outcome"
  on_read :: "string \<Rightarrow> read_outcome"
  pickle_dump :: "(string \<times> Record) list \<Rightarrow> 'b"
  pickle_load :: "'b \<Rightarrow> string + (string \<times> Record) list"
  stdout :: "string list"

definition print :: "string \<Rightarrow> 'b world \<Rightarrow> 'b world" where
  "print s w = w\<lparr>stdout := stdout w @ [s]\<rparr>"

definition set_data :: "(string \<times> Record) list \<Rightarrow> 'b world \<Rightarrow> 'b world" where
  "set_data d w = w\<lparr>book := (book w)\<lparr>data := d\<rparr>\<rparr>"

definition save_to_disk :: "'b world \<Rightarrow> 'b world" where
  "save_to_disk w =
     (if file_path (book w) = [] then w
      else
        (case on_write w (file_path (book w)) of
           Written \<Rightarrow>
             w\<lparr>files := (files w)(file_path (book w) \<mapsto> pickle_dump w (data (book w)))\<rparr>
         | Discarded \<Rightarrow> w
         | OpenFails e \<Rightarrow> print (''Error occurred while saving to disk: '' @ e) w
         | DumpFails e partial \<Rightarrow>
             print (''Error occurred while saving to disk: '' @ e)
               (w\<lparr>files := (files w)(file_path (book w) \<mapsto> partial)\<rparr>)))"

definition load_from_disk :: "'b world \<Rightarrow> 'b world" where
  "load_from_disk w =
     (if file_path (book w) = [] then w
      else
        (case on_read w (file_path (book w)) of
           ReadFails e \<Rightarrow>
             set_data [] (print (''Error occurred while loading from disk: '' @ e) w)
         | Readable \<Rightarrow>
             (case files w (file_path (book w)) of
                None \<Rightarrow> print ''No previous data found. Starting with an empty address book.'' w
              | Some b \<Rightarrow>
                  (case pickle_load w b of
                     Inr d \<Rightarrow> set_data d w
                   | Inl e \<Rightarrow>
                       set_data [] (print (''Error occurred while loading from disk: '' @ e) w)))))"

definition add_record :: "Record \<Rightarrow> 'b world \<Rightarrow> 'b world" where
  "add_record r w = save_to_disk (set_data (AList.update (name r) r (data (book w))) w)"

definition remove_record :: "Record \<Rightarrow> 'b world \<Rightarrow> (error + unit) \<times> 'b world" where
  "remove_record r w =
     (case map_of (data (book w)) (name r) of
        None \<Rightarrow> (Inl (KeyError (name r)), w)
      | Some r' \<Rightarrow> (Inr (), save_to_disk (set_data (AList.delete (name r) (data (book w))) w)))"

text \<open>
  \<^verbatim>\<open>edit_record_name\<close> pops the record first; the setter of the name then stores the
  new name and validates it, and only after that the record is put back.
\<close>

definition edit_record_name :: "string \<Rightarrow> string \<Rightarrow> 'b world \<Rightarrow> (error + unit) \<times> 'b world" where
  "edit_record_name old_name new_name w =
     (case map_of (data (book w)) old_name of
        None \<Rightarrow> (Inl (KeyError old_name), w)
      | Some r \<Rightarrow>
          (case Name_validate new_name of
             Inl e \<Rightarrow> (Inl e, set_data (AList.delete old_name (data (book w))) w)
           | Inr u \<Rightarrow>
               (Inr (),
                save_to_disk
                  (set_data
                     (AList.update new_name (r\<lparr>name := new_name\<rparr>)
                        (AList.delete old_name (data (book w)))) w))))"

section \<open>The command handlers\<close>

fun join :: "string \<Rightarrow> string list \<Rightarrow> string" where
  "join sep [] = []"
| "join sep [x] = x"
| "join sep (x # y # ys) = x @ sep @ join sep (y # ys)"

definition add_contact :: "string \<Rightarrow> string \<Rightarrow> 'b world \<Rightarrow> (error + string) \<times> 'b world" where
  "add_contact n phone w =
     (case Record_init n PyNone of
        Inl e \<Rightarrow> (Inl e, w)
      | Inr r \<Rightarrow>
          (Inr (''Contact '' @ n @ '' with phone number '' @ phone @ '' has been added.''),
           add_record (add_phone phone r) w))"

definition change_contact :: "string \<Rightarrow> string \<Rightarrow> 'b world \<Rightarrow> string \<times> 'b world" where
  "change_contact n phone w =
     (case map_of (data (book w)) n of
        Some r \<Rightarrow>
          (''Phone number for contact '' @ n @ '' has been updated to '' @ phone @ ''.'',
           save_to_disk
             (set_data (AList.update n (add_phone phone (r\<lparr>phones := []\<rparr>)) (data (book w))) w))
      | None \<Rightarrow> (''Contact '' @ n @ '' does not exist.'', w))"

definition phone_contact :: "AddressBook \<Rightarrow> string \<Rightarrow> string" where
  "phone_contact address_book n =
     (case map_of (data address_book) n of
        Some r \<Rightarrow> ''Phone number for contact '' @ n @ '': '' @ join '', '' (phones r)
      | None \<Rightarrow> ''Contact '' @ n @ '' does not exist.'')"

definition show_all_contacts :: "AddressBook \<Rightarrow> string" where
  "show_all_contacts address_book =
     (if data address_book = [] then ''No contacts found.''
      else ''Contacts:'' @ [CHR 0x0A] @
           join [CHR 0x0A] (map (\<lambda>(n, r). n @ '': '' @ join '', '' (phones r)) (data address_book)))"

definition hello :: string where
  "hello = ''How can I help you?''"

text \<open>
  The loop of \<^verbatim>\<open>main\<close>. Each element of the input is one line after
  \<^verbatim>\<open>input(...).lower().split()\<close>, the list of its tokens; when the input ends,
  \<^verbatim>\<open>input\<close> raises \<^verbatim>\<open>EOFError\<close>. An exception of a handler leaves the loop.
  The output holds the lines written by \<^verbatim>\<open>print\<close>; the prompt of \<^verbatim>\<open>input\<close>
  is not recorded.
\<close>

definition invalid_command :: string where
  "invalid_command = ''Invalid command. Please try again.''"

fun main_loop :: "string list list \<Rightarrow> 'b world \<Rightarrow> (error + unit) \<times> 'b world" where
  "main_loop [] w = (Inl EOFError, w)"
| "main_loop (command # rest) w =
     (if command = [] then main_loop rest (print invalid_command w)
      else if hd command = ''hello'' then main_loop rest (print hello w)
      else if hd command = ''add'' then
        (if length command \<noteq> 3 then main_loop rest (print invalid_command w)
         else
           (case add_contact (command ! 1) (command ! 2) w of
              (Inl e, w') \<Rightarrow> (Inl e, w')
            | (Inr result, w') \<Rightarrow> main_loop rest (print result w')))
      else if hd command = ''change'' then
        (if length command \<noteq> 3 then main_loop rest (print invalid_command w)
         else
           (case change_contact (command ! 1) (command ! 2) w of
              (result, w') \<Rightarrow> main_loop rest (print result w')))
      else if hd command = ''phone'' then
        (if length command \<noteq> 2 then main_loop rest (print invalid_command w)
         else main_loop rest (print (phone_contact (book w) (command ! 1)) w))
      else if hd command = ''show'' then
        (if length command \<noteq> 2 then main_loop rest (print invalid_command w)
         else if command ! 1 = ''all''
         then main_loop rest (print (show_all_contacts (book w)) w)
         else main_loop rest (print (phone_contact (book w) (command ! 1)) w))
      else if hd command \<in> set [''good'', ''bye'', ''close'', ''exit'', ''.'']
      then (Inr (), print ''Goodbye!'' (save_to_disk w))
      else main_loop rest (print invalid_command w))"

definition main :: "string list list \<Rightarrow> 'b world \<Rightarrow> (error + unit) \<times> 'b world" where
  "main inputs w =
     main_loop inputs
       (load_from_disk (w\<lparr>book := \<lparr>data = [], file_path = ''address_book.pkl''\<rparr>\<rparr>))"

section \<open>Concrete states\<close>

text \<open>
  States used to run the operations on explicit inputs. Their files hold either a
  dictionary (what \<open>demo_dump\<close> writes and \<open>demo_load\<close> reads back) or nothing that
  unpickles, as an empty file does. \<open>world0\<close> is an empty book on an empty disk,
  \<open>world1\<close> a book that holds one contact. The other states have the book of \<open>world1\<close>
  on a disk where something goes wrong: the path cannot be written and holds an older,
  empty pickle (\<open>world_denied\<close>); the path can be written but not read
  (\<open>world_write_only\<close>); the path is \<^verbatim>\<open>/dev/null\<close> (\<open>world_dev_null\<close>); the path cannot
  be written and no file exists (\<open>world_no_file\<close>).
\<close>

definition demo_dump :: "(string \<times> Record) list \<Rightarrow> (string \<times> Record) list option" where
  "demo_dump d = Some d"

definition demo_load :: "(string \<times> Record) list option \<Rightarrow> string + (string \<times> Record) list" where
  "demo_load b = (case b of None \<Rightarrow> Inl ''Ran out of input'' | Some d \<Rightarrow> Inr d)"

definition world0 :: "(string \<times> Record) list option world" where
  "world0 =
     \<lparr>book = \<lparr>data = [], file_path = ''address_book.pkl''\<rparr>,
      files = (\<lambda>p. None), on_write = (\<lambda>p. Written), on_read = (\<lambda>p. Readable),
      pickle_dump = demo_dump, pickle_load = demo_load, stdout = []\<rparr>"

definition alice :: Record where
  "alice = \<lparr>name = ''alice'', phones = [''111'', ''222''], birthday = PyNone\<rparr>"

definition world1 :: "(string \<times> Record) list option world" where
  "world1 = world0\<lparr>book := \<lparr>data = [(''alice'', alice)], file_path = ''address_book.pkl''\<rparr>\<rparr>"

definition world_denied :: "(string \<times> Record) list option world" where
  "world_denied =
     world1\<lparr>files := (\<lambda>p. if p = ''address_book.pkl'' then Some (demo_dump []) else None),
            on_write := (\<lambda>p. OpenFails ''Permission denied'')\<rparr>"

definition world_write_only :: "(string \<times> Record) list option world" where
  "world_write_only = world1\<lparr>on_read := (\<lambda>p. ReadFails ''Permission denied'')\<rparr>"

definition world_dev_null :: "(string \<times> Record) list option world" where
  "world_dev_null =
     world0\<lparr>book := \<lparr>data = [(''alice'', alice)], file_path = ''/dev/null''\<rparr>,
            files := (\<lambda>p. if p = ''/dev/null'' then Some None else None),
            on_write := (\<lambda>p. if p = ''/dev/null'' then Discarded else Written)\<rparr>"

definition world_no_file :: "(string \<times> Record) list option world" where
  "world_no_file = world1\<lparr>on_write := (\<lambda>p. OpenFails ''Permission denied'')\<rparr>"

section \<open>Basic facts\<close>

lemmas eval_defs = world0_def world1_def alice_def world_denied_def world_write_only_def
  world_dev_null_def world_no_file_def demo_dump_def demo_load_def
  add_contact_def Record_init_def Name_validate_def Birthday_validate_def add_phone_def
  add_record_def set_data_def save_to_disk_def load_from_disk_def print_def phone_contact_def
  change_contact_def remove_record_def edit_record_name_def
  re_match_name_def re_match_phone_def strip_final_newline_def is_letter_or_space_def
  is_digit_def ord_def

lemma book_save_to_disk [simp]: "book (save_to_disk w) = book w"
  by (simp add: save_to_disk_def print_def split: write_outcome.splits)

lemma book_set_data [simp]: "book (set_data d w) = (book w)\<lparr>data := d\<rparr>"
  by (simp add: set_data_def)

lemma re_match_name_nonempty: "re_match_name n \<Longrightarrow> n \<noteq> []"
  by (auto simp: re_match_name_def strip_final_newline_def)

lemma add_contact_ok:
  "n \<noteq> [] \<Longrightarrow> add_contact n p w =
     (Inr (''Contact '' @ n @ '' with phone number '' @ p @ '' has been added.''),
      add_record \<lparr>name = n, phones = [p], birthday = PyNone\<rparr> w)"
  by (simp add: add_contact_def Record_init_def Name_validate_def Birthday_validate_def
      add_phone_def)

lemma data_add_record [simp]:
  "data (book (add_record r w)) = AList.update (name r) r (data (book w))"
  by (simp add: add_record_def)

text \<open>In a dictionary (an association list with distinct keys) a key has one entry.\<close>

lemma count_key_distinct:
  "distinct (map fst al) \<Longrightarrow> k \<in> fst ` set al \<Longrightarrow>
     length (filter (\<lambda>kv. fst kv = k) al) = 1"
proof (induction al)
  case Nil
  then show ?case by simp
next
  case (Cons a al)
  show ?case
  proof (cases "fst a = k")
    case True
    with Cons.prems have "k \<notin> fst ` set al" by auto
    then have "filter (\<lambda>kv. fst kv = k) al = []"
      by (auto simp: filter_empty_conv)
    with True show ?thesis by simp
  next
    case False
    with Cons show ?thesis by auto
  qed
qed

section \<open>Validation of the arguments of add and change\<close>

text \<open>
  C1. The claim: an \<^verbatim>\<open>add\<close> or \<^verbatim>\<open>change\<close> command whose name has a character outside
  English letters and spaces, or whose phone has a non-digit, is answered with a rejection
  message, nothing is registered and nothing is persisted; \<^verbatim>\<open>add bob 1a2\<close> is rejected
  and \<^verbatim>\<open>phone bob\<close> then reports that bob does not exist.

  The code defines the wrapper \<^verbatim>\<open>validation_contact\<close>, which does reject the phone
  \<^verbatim>\<open>1a2\<close>, but neither \<^verbatim>\<open>add_contact\<close> nor \<^verbatim>\<open>change_contact\<close> is decorated with it
  and \<^verbatim>\<open>main\<close> calls the undecorated handlers. On the empty book, \<^verbatim>\<open>add bob 1a2\<close>
  registers bob, writes the book to the file, and \<^verbatim>\<open>phone bob\<close> prints the phone.
\<close>

theorem add_contact_unvalidated:
  "re_match_phone ''1a2'' = False
   \<and> validation_contact add_contact ''bob'' ''1a2'' world0
       = (Inr ''Invalid input. Phone number can only contain digits.'', world0)
   \<and> fst (add_contact ''bob'' ''1a2'' world0)
       = Inr ''Contact bob with phone number 1a2 has been added.''
   \<and> phone_contact (book (snd (add_contact ''bob'' ''1a2'' world0))) ''bob''
       = ''Phone number for contact bob: 1a2''
   \<and> files (snd (add_contact ''bob'' ''1a2'' world0)) ''address_book.pkl''
       = Some (pickle_dump world0
           [(''bob'', \<lparr>name = ''bob'', phones = [''1a2''], birthday = PyNone\<rparr>)])
   \<and> stdout (snd (main_loop [[''add'', ''bob'', ''1a2''], [''phone'', ''bob''], [''exit'']] world0))
       = [''Contact bob with phone number 1a2 has been added.'',
          ''Phone number for contact bob: 1a2'', ''Goodbye!'']"
  by (simp add: eval_defs validation_contact_def)

section \<open>Adding and looking up\<close>

text \<open>
  C2. For every name that matches \<^verbatim>\<open>^[A-Za-z ]+$\<close> and every phone that matches
  \<^verbatim>\<open>^\d+$\<close>, in every state, \<^verbatim>\<open>add_contact\<close> returns its confirmation and
  \<^verbatim>\<open>phone_contact\<close> for that name then returns
  \<^verbatim>\<open>Phone number for contact <name>: <phone>\<close>, with exactly the phone just added.
\<close>

theorem add_then_phone:
  assumes "re_match_name n" and "re_match_phone p"
  shows "fst (add_contact n p w) =
           Inr (''Contact '' @ n @ '' with phone number '' @ p @ '' has been added.'')
       \<and> phone_contact (book (snd (add_contact n p w))) n =
           ''Phone number for contact '' @ n @ '': '' @ p"
  using re_match_name_nonempty [OF assms(1)]
  by (simp add: add_contact_ok phone_contact_def update_conv')

theorem add_then_phone_witness:
  "re_match_name ''alice'' \<and> re_match_phone ''12345''
   \<and> fst (add_contact ''alice'' ''12345'' world1) =
           Inr ''Contact alice with phone number 12345 has been added.''
   \<and> phone_contact (book (snd (add_contact ''alice'' ''12345'' world1))) ''alice'' =
           ''Phone number for contact alice: 12345''"
proof -
  have n: "re_match_name ''alice''" by (simp add: eval_defs)
  have p: "re_match_phone ''12345''" by (simp add: eval_defs)
  show ?thesis using n p add_then_phone [OF n p, of world1] by simp
qed

text \<open>
  C3. The claim: for every address book and every name, adding twice under the same name
  leaves a single record under that name whose phone list is the phone of the second call.

  As stated it fails for the empty name: \<^verbatim>\<open>Record("")\<close> raises the
  \<^verbatim>\<open>ValueError\<close> of \<^verbatim>\<open>Name.validate\<close>, both calls fail and no record is stored.
\<close>

theorem add_twice_empty_name_counterexample:
  "fst (add_contact '''' ''1'' world0) = Inl (ValueError ''Name field is required.'')
   \<and> fst (add_contact '''' ''2'' (snd (add_contact '''' ''1'' world0)))
       = Inl (ValueError ''Name field is required.'')
   \<and> map_of (data (book (snd (add_contact '''' ''2'' (snd (add_contact '''' ''1'' world0)))))) ''''
       = None"
  by (simp add: eval_defs)

text \<open>
  C3, amended. For every address book (a dictionary: its keys are distinct) and every
  non-empty name, both calls of \<^verbatim>\<open>add_contact\<close> return their confirmation, no error is
  raised, and afterwards the name is looked up to a record whose phone list is only the
  phone of the second call; the keys are still distinct and the name has one entry.
\<close>

theorem add_twice_overwrites:
  assumes "n \<noteq> []" and "distinct (map fst (data (book w)))"
  shows "fst (add_contact n p1 w) =
           Inr (''Contact '' @ n @ '' with phone number '' @ p1 @ '' has been added.'')
       \<and> fst (add_contact n p2 (snd (add_contact n p1 w))) =
           Inr (''Contact '' @ n @ '' with phone number '' @ p2 @ '' has been added.'')
       \<and> map_of (data (book (snd (add_contact n p2 (snd (add_contact n p1 w)))))) n =
           Some \<lparr>name = n, phones = [p2], birthday = PyNone\<rparr>
       \<and> distinct (map fst (data (book (snd (add_contact n p2 (snd (add_contact n p1 w)))))))
       \<and> length (filter (\<lambda>kv. fst kv = n)
            (data (book (snd (add_contact n p2 (snd (add_contact n p1 w))))))) = 1"
proof -
  let ?r2 = "\<lparr>name = n, phones = [p2], birthday = PyNone\<rparr>"
  let ?d = "AList.update n ?r2 (data (book w))"
  have d: "data (book (snd (add_contact n p2 (snd (add_contact n p1 w))))) = ?d"
    using assms(1) by (simp add: add_contact_ok)
  have dist: "distinct (map fst ?d)"
    using assms(2) by (rule distinct_update)
  have look: "map_of ?d n = Some ?r2"
    by (simp add: update_conv')
  have "n \<in> fst ` set ?d"
    by (simp add: dom_update)
  with dist have one: "length (filter (\<lambda>kv. fst kv = n) ?d) = 1"
    by (rule count_key_distinct)
  show ?thesis
    using assms(1) dist look one by (simp add: d add_contact_ok)
qed

theorem add_twice_overwrites_witness:
  "''alice'' \<noteq> [] \<and> distinct (map fst (data (book world1)))
   \<and> map_of (data (book world1)) ''alice''
       = Some \<lparr>name = ''alice'', phones = [''111'', ''222''], birthday = PyNone\<rparr>
   \<and> map_of (data (book (snd (add_contact ''alice'' ''9''
         (snd (add_contact ''alice'' ''7'' world1)))))) ''alice''
       = Some \<lparr>name = ''alice'', phones = [''9''], birthday = PyNone\<rparr>
   \<and> length (filter (\<lambda>kv. fst kv = ''alice'')
        (data (book (snd (add_contact ''alice'' ''9''
           (snd (add_contact ''alice'' ''7'' world1))))))) = 1"
proof -
  have h1: "''alice'' \<noteq> []" by simp
  have h2: "distinct (map fst (data (book world1)))" by (simp add: world0_def world1_def)
  show ?thesis
    using add_twice_overwrites [OF h1 h2, of "''7''" "''9''"]
    by (simp add: world0_def world1_def alice_def)
qed

section \<open>Changing and removing\<close>

text \<open>
  C4. For every state and every name that is not a key of the address book,
  \<^verbatim>\<open>change_contact\<close> returns exactly \<^verbatim>\<open>Contact <name> does not exist.\<close>; it raises
  nothing, and the whole state (the mapping, the files, the output) is as before.
\<close>

theorem change_absent:
  assumes "map_of (data (book w)) n = None"
  shows "change_contact n p w = (''Contact '' @ n @ '' does not exist.'', w)"
  using assms by (simp add: change_contact_def)

theorem change_absent_witness:
  "map_of (data (book world1)) ''bob'' = None
   \<and> change_contact ''bob'' ''555'' world1 = (''Contact bob does not exist.'', world1)"
proof -
  have h: "map_of (data (book world1)) ''bob'' = None" by (simp add: world0_def world1_def)
  show ?thesis using h change_absent [OF h, of "''555''"] by simp
qed

text \<open>
  C5. \<^verbatim>\<open>remove_record\<close> on a record whose name is not a key raises \<^verbatim>\<open>KeyError\<close> and
  leaves the state as it was; on a record whose name is a key it returns normally, the
  mapping afterwards is the old one without that key, and \<^verbatim>\<open>phone_contact\<close> for the
  name reports that the contact does not exist.
\<close>

theorem remove_record_spec:
  "(map_of (data (book w)) (name r) = None \<longrightarrow>
      remove_record r w = (Inl (KeyError (name r)), w))
   \<and> (map_of (data (book w)) (name r) \<noteq> None \<longrightarrow>
      fst (remove_record r w) = Inr ()
      \<and> map_of (data (book (snd (remove_record r w)))) = (map_of (data (book w)))(name r := None)
      \<and> phone_contact (book (snd (remove_record r w))) (name r)
          = ''Contact '' @ name r @ '' does not exist.'')"
  by (auto simp: remove_record_def phone_contact_def delete_conv')

theorem remove_record_spec_witness:
  "map_of (data (book world0)) (name alice) = None
   \<and> remove_record alice world0 = (Inl (KeyError ''alice''), world0)
   \<and> map_of (data (book world1)) (name alice) \<noteq> None
   \<and> fst (remove_record alice world1) = Inr ()
   \<and> phone_contact (book (snd (remove_record alice world1))) ''alice''
        = ''Contact alice does not exist.''"
  using remove_record_spec [of world0 alice] remove_record_spec [of world1 alice]
  by (simp add: world0_def world1_def alice_def)

section \<open>Renaming a record\<close>

text \<open>
  C6. The claim: whenever \<^verbatim>\<open>old\<close> is a key, \<^verbatim>\<open>edit_record_name(old, new)\<close> moves the
  record to the key \<^verbatim>\<open>new\<close> with the same phones, sets its name to \<^verbatim>\<open>new\<close> and
  removes the key \<^verbatim>\<open>old\<close>; when \<^verbatim>\<open>old\<close> is absent it raises a lookup error.

  As stated it fails for two new names. For the empty name the setter of the \<^verbatim>\<open>Name\<close>
  field raises \<^verbatim>\<open>ValueError\<close> and nothing is stored under the new key. For
  \<^verbatim>\<open>new = old\<close> the record is put back under the same key, so the key \<^verbatim>\<open>old\<close> is
  still present.
\<close>

theorem edit_record_name_counterexample:
  "map_of (data (book world1)) ''alice'' = Some alice
   \<and> fst (edit_record_name ''alice'' '''' world1) = Inl (ValueError ''Name field is required.'')
   \<and> map_of (data (book (snd (edit_record_name ''alice'' '''' world1)))) '''' = None
   \<and> fst (edit_record_name ''alice'' ''alice'' world1) = Inr ()
   \<and> map_of (data (book (snd (edit_record_name ''alice'' ''alice'' world1)))) ''alice'' = Some alice"
  by (simp add: eval_defs)

text \<open>
  C6, amended. Whenever \<^verbatim>\<open>old\<close> is a key and \<^verbatim>\<open>new\<close> is not empty,
  \<^verbatim>\<open>edit_record_name(old, new)\<close> returns normally and the key \<^verbatim>\<open>new\<close> then holds the
  record with the same phones and birthday and with the name \<^verbatim>\<open>new\<close>; the key \<^verbatim>\<open>old\<close>
  is absent afterwards when it differs from \<^verbatim>\<open>new\<close>. When \<^verbatim>\<open>old\<close> is not a key,
  \<^verbatim>\<open>KeyError\<close> is raised and the state is as before.
\<close>

theorem edit_record_name_spec:
  "(map_of (data (book w)) old = Some r \<and> new \<noteq> [] \<longrightarrow>
      fst (edit_record_name old new w) = Inr ()
      \<and> map_of (data (book (snd (edit_record_name old new w)))) new
          = Some \<lparr>name = new, phones = phones r, birthday = birthday r\<rparr>
      \<and> (old \<noteq> new \<longrightarrow> map_of (data (book (snd (edit_record_name old new w)))) old = None))
   \<and> (map_of (data (book w)) old = None \<longrightarrow>
      edit_record_name old new w = (Inl (KeyError old), w))"
  by (auto simp: edit_record_name_def Name_validate_def update_conv' delete_conv')

theorem edit_record_name_spec_witness:
  "map_of (data (book world1)) ''alice'' = Some alice \<and> ''bob'' \<noteq> []
   \<and> fst (edit_record_name ''alice'' ''bob'' world1) = Inr ()
   \<and> map_of (data (book (snd (edit_record_name ''alice'' ''bob'' world1)))) ''bob''
       = Some \<lparr>name = ''bob'', phones = [''111'', ''222''], birthday = PyNone\<rparr>
   \<and> ''alice'' \<noteq> ''bob''
   \<and> map_of (data (book (snd (edit_record_name ''alice'' ''bob'' world1)))) ''alice'' = None
   \<and> map_of (data (book world0)) ''alice'' = None
   \<and> edit_record_name ''alice'' ''bob'' world0 = (Inl (KeyError ''alice''), world0)"
  using edit_record_name_spec [of world1 "''alice''" alice "''bob''"]
    edit_record_name_spec [of world0 "''alice''" alice "''bob''"]
  by (simp add: world0_def world1_def alice_def)

text \<open>
  C9. \<^verbatim>\<open>edit_record_name\<close> is not atomic: whenever \<^verbatim>\<open>old\<close> is a key and the new name is
  empty, the call raises the \<^verbatim>\<open>ValueError\<close> of the \<^verbatim>\<open>Name\<close> field, and afterwards the
  dictionary is the old one with the entry of \<^verbatim>\<open>old\<close> deleted and nothing inserted: the
  record is under no key any more, and the file has not been written.
\<close>

theorem edit_record_name_empty_loses_record:
  assumes "map_of (data (book w)) old = Some r"
  shows "fst (edit_record_name old [] w) = Inl (ValueError ''Name field is required.'')
     \<and> data (book (snd (edit_record_name old [] w))) = AList.delete old (data (book w))
     \<and> map_of (data (book (snd (edit_record_name old [] w)))) = (map_of (data (book w)))(old := None)
     \<and> map_of (data (book (snd (edit_record_name old [] w)))) old = None
     \<and> files (snd (edit_record_name old [] w)) = files w"
  using assms by (simp add: edit_record_name_def Name_validate_def delete_conv' set_data_def)

theorem edit_record_name_empty_loses_record_witness:
  "map_of (data (book world1)) ''alice'' = Some alice
   \<and> fst (edit_record_name ''alice'' '''' world1) = Inl (ValueError ''Name field is required.'')
   \<and> data (book (snd (edit_record_name ''alice'' '''' world1))) = []
   \<and> map_of (data (book (snd (edit_record_name ''alice'' '''' world1)))) ''alice'' = None
   \<and> map_of (data (book (snd (edit_record_name ''alice'' '''' world1)))) '''' = None"
proof -
  have h: "map_of (data (book world1)) ''alice'' = Some alice" by (simp add: world0_def world1_def)
  show ?thesis
    using h edit_record_name_empty_loses_record [OF h] by (simp add: world0_def world1_def)
qed

section \<open>Saving and loading\<close>



lemma file_path_load_from_disk [simp]: "file_path (book (load_from_disk w)) = file_path (book w)"
  by (simp add: load_from_disk_def set_data_def print_def
      split: read_outcome.splits option.splits sum.splits)

lemma save_to_disk_fields [simp]:
  "on_read (save_to_disk w) = on_read w" "pickle_load (save_to_disk w) = pickle_load w"
  by (simp_all add: save_to_disk_def print_def split: write_outcome.splits)



section \<open>Days to the next birthday\<close>

text \<open>
  Where the dates it builds exist, \<^verbatim>\<open>days_to_birthday\<close> does what is expected of it:
  the day numbers grow with month and day inside a year, the result is \<^verbatim>\<open>None\<close>
  without a birthday, 0 on the birthday, and the difference of the day numbers otherwise,
  never negative for an occurrence in the current year.
\<close>

lemma days_before_month_step:
  assumes "1 \<le> m" and "m \<le> 11"
  shows "days_before_month y (m + 1) = days_before_month y m + days_in_month y m"
proof -
  from assms have "m = 1 \<or> m = 2 \<or> m = 3 \<or> m = 4 \<or> m = 5 \<or> m = 6 \<or> m = 7 \<or> m = 8 \<or> m = 9
      \<or> m = 10 \<or> m = 11" by arith
  then show ?thesis
    by (elim disjE) (simp_all add: days_before_month_def days_in_month_def)
qed

lemma days_in_month_pos: "28 \<le> days_in_month y m" "days_in_month y m \<le> 31"
  by (simp_all add: days_in_month_def)

lemma days_before_month_mono:
  assumes "1 \<le> m1" and "m1 < m2" and "m2 \<le> 12"
  shows "days_before_month y m1 + days_in_month y m1 \<le> days_before_month y m2"
  using assms(2,1,3)
proof (induction m2 rule: int_gr_induct)
  case base
  then show ?case by (simp add: days_before_month_step)
next
  case (step i)
  have "days_before_month y (i + 1) = days_before_month y i + days_in_month y i"
    using step by (intro days_before_month_step) auto
  moreover have "0 \<le> days_in_month y i" using days_in_month_pos(1) [of y i] by simp
  ultimately show ?case using step by simp
qed

lemma toordinal_mono_same_year:
  assumes "valid_date a" and "valid_date b" and "year a = year b" and "date_less a b"
  shows "toordinal a < toordinal b"
proof (cases "month a < month b")
  case True
  then have "days_before_month (year a) (month a) + days_in_month (year a) (month a)
      \<le> days_before_month (year a) (month b)"
    using assms(1,2) by (intro days_before_month_mono) (auto simp: valid_date_def)
  with assms(1-3) show ?thesis
    by (simp add: toordinal_def valid_date_def)
next
  case False
  with assms(3,4) have "month a = month b" "day a < day b"
    by (auto simp: date_less_def)
  with assms(3) show ?thesis by (simp add: toordinal_def)
qed


lemma days_to_birthday_unset:
  "birthday r = PyNone \<Longrightarrow> days_to_birthday r today = Inr None"
  by (simp add: days_to_birthday_def)

lemma date_new_valid:
  "valid_date \<lparr>year = y, month = m, day = d\<rparr> \<Longrightarrow>
     date_new y m d = Inr \<lparr>year = y, month = m, day = d\<rparr>"
  by (auto simp: date_new_def valid_date_def)

lemma date_new_Inr:
  "date_new y m d = Inr x \<Longrightarrow> x = \<lparr>year = y, month = m, day = d\<rparr> \<and> valid_date x"
  by (auto simp: date_new_def valid_date_def split: if_splits)

lemma days_to_birthday_on_the_day:
  assumes "birthday r = PyDate b" and "valid_date today"
    and "month b = month today" and "day b = day today"
  shows "days_to_birthday r today = Inr (Some 0)"
proof -
  have "date_new (year today) (month today) (day today)
      = Inr \<lparr>year = year today, month = month today, day = day today\<rparr>"
    using assms(2) by (intro date_new_valid) (simp add: valid_date_def)
  with assms(1,3,4) show ?thesis
    by (simp add: days_to_birthday_def date_less_def toordinal_def)
qed

lemma days_to_birthday_this_year:
  assumes "birthday r = PyDate b" and "valid_date today"
    and "date_new (year today) (month b) (day b) = Inr d"
    and "\<not> date_less d today"
  shows "days_to_birthday r today = Inr (Some (toordinal d - toordinal today))"
    and "0 \<le> toordinal d - toordinal today"
proof -
  show "days_to_birthday r today = Inr (Some (toordinal d - toordinal today))"
    using assms by (simp add: days_to_birthday_def)
  from date_new_Inr [OF assms(3)]
  have d: "d = \<lparr>year = year today, month = month b, day = day b\<rparr>" and v: "valid_date d"
    by blast+
  show "0 \<le> toordinal d - toordinal today"
  proof (cases "date_less today d")
    case True
    from toordinal_mono_same_year [OF assms(2) v _ True] d show ?thesis by simp
  next
    case False
    with assms(4) d have "month b = month today" "day b = day today"
      by (auto simp: date_less_def)
    with d show ?thesis by (simp add: toordinal_def)
  qed
qed

lemma days_to_birthday_next_year:
  assumes "birthday r = PyDate b"
    and "date_new (year today) (month b) (day b) = Inr d"
    and "date_less d today"
    and "date_new (year today + 1) (month b) (day b) = Inr d'"
  shows "days_to_birthday r today = Inr (Some (toordinal d' - toordinal today))"
  using assms by (simp add: days_to_birthday_def)

text \<open>
  C7. The claim: for every record \<^verbatim>\<open>days_to_birthday\<close> returns \<^verbatim>\<open>None\<close> without a
  birthday, 0 on the birthday, and otherwise the number of days to the next occurrence of
  the birthday's month and day, this year or next year.

  The code builds the occurrence with \<^verbatim>\<open>date(today.year, month, day)\<close> and has no case
  for a birthday on February 29: on 2023-06-15, for a birthday 1996-02-29, the constructor
  raises \<^verbatim>\<open>ValueError\<close> and no day count is returned.
\<close>

theorem days_to_birthday_leap_day_2023:
  "valid_date \<lparr>year = 1996, month = 2, day = 29\<rparr>
   \<and> valid_date \<lparr>year = 2023, month = 6, day = 15\<rparr>
   \<and> days_to_birthday
       \<lparr>name = ''alice'', phones = [], birthday = PyDate \<lparr>year = 1996, month = 2, day = 29\<rparr>\<rparr>
       \<lparr>year = 2023, month = 6, day = 15\<rparr>
     = Inl (ValueError ''day is out of range for month'')"
  by (simp add: days_to_birthday_def date_new_def valid_date_def days_in_month_def is_leap_def)

text \<open>
  C10. \<^verbatim>\<open>days_to_birthday\<close> is not total: for a record whose birthday is February 29
  and a valid date \<open>today\<close>, when the current year is not a leap year, or when February 29
  of the current year has passed and the next year is not a leap year, the call raises the
  \<^verbatim>\<open>ValueError\<close> of the date constructor instead of returning a day count.
\<close>

theorem days_to_birthday_leap_day_fails:
  assumes "birthday r = PyDate b" and "month b = 2" and "day b = 29" and "valid_date today"
    and "\<not> is_leap (year today) \<or>
         (date_less \<lparr>year = year today, month = 2, day = 29\<rparr> today \<and> \<not> is_leap (year today + 1))"
  shows "days_to_birthday r today = Inl (ValueError ''day is out of range for month'')"
proof (cases "is_leap (year today)")
  case False
  with assms(1-4) show ?thesis
    by (simp add: days_to_birthday_def date_new_def valid_date_def days_in_month_def)
next
  case True
  with assms(5) have passed: "date_less \<lparr>year = year today, month = 2, day = 29\<rparr> today"
    and next_year: "\<not> is_leap (year today + 1)" by auto
  have "year today \<noteq> 9999"
    using True by (auto simp: is_leap_def)
  with assms(4) have range: "1 \<le> year today" "year today + 1 \<le> 9999"
    by (auto simp: valid_date_def)
  have this_year: "date_new (year today) 2 29 = Inr \<lparr>year = year today, month = 2, day = 29\<rparr>"
    using True range by (simp add: date_new_def days_in_month_def)
  have "date_new (year today + 1) 2 29 = Inl (ValueError ''day is out of range for month'')"
    using next_year range by (simp add: date_new_def days_in_month_def)
  with this_year passed assms(1-3) show ?thesis
    by (simp add: days_to_birthday_def)
qed

theorem days_to_birthday_leap_day_fails_witness:
  "valid_date \<lparr>year = 2023, month = 1, day = 1\<rparr>
   \<and> is_leap 2023 = False
   \<and> days_to_birthday
       \<lparr>name = ''bob'', phones = [], birthday = PyDate \<lparr>year = 2000, month = 2, day = 29\<rparr>\<rparr>
       \<lparr>year = 2023, month = 1, day = 1\<rparr>
     = Inl (ValueError ''day is out of range for month'')
   \<and> valid_date \<lparr>year = 2024, month = 3, day = 1\<rparr>
   \<and> is_leap 2024 \<and> is_leap 2025 = False
   \<and> date_less \<lparr>year = 2024, month = 2, day = 29\<rparr> \<lparr>year = 2024, month = 3, day = 1\<rparr>
   \<and> days_to_birthday
       \<lparr>name = ''bob'', phones = [], birthday = PyDate \<lparr>year = 2000, month = 2, day = 29\<rparr>\<rparr>
       \<lparr>year = 2024, month = 3, day = 1\<rparr>
     = Inl (ValueError ''day is out of range for month'')"
proof -
  let ?b = "\<lparr>year = 2000, month = 2, day = 29\<rparr>"
  let ?r = "\<lparr>name = ''bob'', phones = [], birthday = PyDate ?b\<rparr>"
  let ?t1 = "\<lparr>year = 2023, month = 1, day = 1\<rparr>"
  let ?t2 = "\<lparr>year = 2024, month = 3, day = 1\<rparr>"
  have v1: "valid_date ?t1" and v2: "valid_date ?t2"
    by (simp_all add: valid_date_def days_in_month_def)
  have l: "is_leap 2023 = False" "is_leap 2024" "is_leap 2025 = False"
    by (simp_all add: is_leap_def)
  have p: "date_less \<lparr>year = 2024, month = 2, day = 29\<rparr> ?t2"
    by (simp add: date_less_def)
  have c1: "\<not> is_leap (year ?t1) \<or>
         (date_less \<lparr>year = year ?t1, month = 2, day = 29\<rparr> ?t1 \<and> \<not> is_leap (year ?t1 + 1))"
    using l by simp
  have c2: "\<not> is_leap (year ?t2) \<or>
         (date_less \<lparr>year = year ?t2, month = 2, day = 29\<rparr> ?t2 \<and> \<not> is_leap (year ?t2 + 1))"
    using l p by simp
  have b: "birthday ?r = PyDate ?b" "month ?b = 2" "day ?b = 29" by simp_all
  show ?thesis
    using v1 v2 l p
      days_to_birthday_leap_day_fails [OF b v1 c1]
      days_to_birthday_leap_day_fails [OF b v2 c2]
    by simp
qed

end
